theory Spec2Isabelle
  imports Complex_Main "HOL-Library.Multiset" "HOL-Library.Word"
begin

section \<open>TreeSense: the single-image inference pipeline\<close>

text \<open>
  The development embeds two TypeScript modules of the repository.
  \<^item> The in-browser pipeline (module state \<open>model\<close>, \<open>classMapping\<close>,
    \<open>backendInitialized\<close>; functions \<open>initializeBackend\<close>, \<open>loadModel\<close>,
    \<open>predictImage\<close>).
  \<^item> The API client (\<open>predictImage\<close> of the client module, here \<open>api_predictImage\<close>,
    since both modules use the same function name).

  Numbers are modelled as real numbers: a confidence is a \<open>real\<close>, and the comparator
  \<open>b.confidence - a.confidence\<close> is the exact difference. The value NaN, which no
  comparison orders, and the rounding of binary floating point are outside the model.
  The functions \<open>loadModel\<close> and \<open>predictImage\<close> below describe one call that runs from
  its start to its end with no other call of the module in between. Every \<open>await\<close> of the
  source is a point where another call may run; for \<open>loadModel\<close>, the only code that
  assigns the module state, the segments between its awaits are given as \<open>load_step\<close>,
  and \<open>exec\<close> runs any number of calls under any schedule of their segments.
\<close>

subsection \<open>Errors and results\<close>

text \<open>A thrown JavaScript \<open>Error\<close>: its \<open>name\<close> and its \<open>message\<close>.\<close>

record js_error =
  name :: string
  message :: string

definition Error :: "string \<Rightarrow> js_error" where
  "Error msg = \<lparr>name = ''Error'', message = msg\<rparr>"

definition TypeError :: "string \<Rightarrow> js_error" where
  "TypeError msg = \<lparr>name = ''TypeError'', message = msg\<rparr>"

text \<open>
  One label/confidence pair, \<open>{ className, confidence }\<close>. Reading a key that the class
  mapping does not have gives \<open>undefined\<close>, which is \<open>None\<close> here.
\<close>

record class_prob =
  className :: "string option"
  confidence :: real

text \<open>
  \<open>PredictionResult\<close> has the two fields of a pair and three more, so it is the record
  extension of \<open>class_prob\<close>.
\<close>

record PredictionResult = class_prob +
  top3 :: "class_prob list"
  allProbabilities :: "class_prob list"
  preprocessedImageUrl :: "string option"

subsection \<open>\<open>String(index)\<close> and \<open>Array.prototype.sort\<close>\<close>

text \<open>\<open>String(n)\<close> for a non-negative integer: its decimal digits.\<close>

definition digit :: "nat \<Rightarrow> char" where
  "digit d = ''0123456789'' ! d"

fun String_of :: "nat \<Rightarrow> string" where
  "String_of n = (if n < 10 then [digit n] else String_of (n div 10) @ [digit (n mod 10)])"

declare String_of.simps [simp del]

text \<open>
  \<open>xs.sort(cmp)\<close> is a stable sort (ECMAScript 2019 and later): \<open>cmp a b < 0\<close> puts \<open>a\<close>
  first, \<open>cmp a b > 0\<close> puts \<open>b\<close> first, and elements that compare as \<open>0\<close> keep their
  relative order. For a consistent comparator the result does not depend on the engine's
  algorithm; the model is the stable insertion sort.
\<close>

fun js_insert :: "('a \<Rightarrow> 'a \<Rightarrow> real) \<Rightarrow> 'a \<Rightarrow> 'a list \<Rightarrow> 'a list" where
  "js_insert cmp x [] = [x]"
| "js_insert cmp x (y # ys) = (if cmp x y \<le> 0 then x # y # ys else y # js_insert cmp x ys)"

definition js_sort :: "('a \<Rightarrow> 'a \<Rightarrow> real) \<Rightarrow> 'a list \<Rightarrow> 'a list" where
  "js_sort cmp xs = foldr (js_insert cmp) xs []"

subsection \<open>Ranking: the tail of \<open>predictImage\<close>\<close>

text \<open>
  \<^verbatim>\<open>probabilities.map((prob, index) => ({ className: classMapping![String(index)], confidence: prob }))\<close>
\<close>

definition allPredictions :: "(string \<rightharpoonup> string) \<Rightarrow> real list \<Rightarrow> class_prob list" where
  "allPredictions cm probabilities =
     map (\<lambda>(index, prob). \<lparr>className = cm (String_of index), confidence = prob\<rparr>)
       (enumerate 0 probabilities)"

text \<open>The comparator \<^verbatim>\<open>(a, b) => b.confidence - a.confidence\<close>.\<close>

definition by_confidence :: "('a class_prob_scheme) \<Rightarrow> ('a class_prob_scheme) \<Rightarrow> real" where
  "by_confidence a b = confidence b - confidence a"

text \<open>\<^verbatim>\<open>const sorted = [...allPredictions].sort((a, b) => b.confidence - a.confidence)\<close>\<close>

definition sorted_predictions :: "(string \<rightharpoonup> string) \<Rightarrow> real list \<Rightarrow> class_prob list" where
  "sorted_predictions cm probabilities = js_sort by_confidence (allPredictions cm probabilities)"

text \<open>
  The returned object. \<open>sorted[0]\<close> of an empty array is \<open>undefined\<close>, and reading
  \<open>.className\<close> of it throws a \<open>TypeError\<close>; \<open>sorted.slice(0, 3)\<close> is \<open>take 3\<close>.
  The field \<open>allProbabilities\<close> is \<open>allPredictions\<close>, the list before sorting.
\<close>

definition rank :: "(string \<rightharpoonup> string) \<Rightarrow> real list \<Rightarrow> string \<Rightarrow> js_error + PredictionResult" where
  "rank cm probabilities url =
     (let sorted = sorted_predictions cm probabilities in
      case sorted of
        [] \<Rightarrow> Inl (TypeError ''Cannot read properties of undefined'')
      | first # _ \<Rightarrow>
          Inr \<lparr>className = className first,
               confidence = confidence first,
               top3 = take 3 sorted,
               allProbabilities = allPredictions cm probabilities,
               preprocessedImageUrl = Some url\<rparr>)"

subsection \<open>The browser, as one call sees it\<close>

text \<open>A promise either rejects with an error or resolves with a value.\<close>

datatype 'a settled = Rejects js_error | Resolves 'a

text \<open>What the code reads of a \<open>fetch\<close> response: \<open>ok\<close>, \<open>status\<close> and \<open>json()\<close>.\<close>

record 'a response =
  ok :: bool
  status :: nat
  json :: "'a settled"

text \<open>
  The loaded classifier is opaque; the code only calls \<open>model.predict(tensor)\<close> and reads the
  result with \<open>array()\<close> as \<open>number[][]\<close>. Either may throw.
\<close>

type_synonym LayersModel = "real list \<Rightarrow> js_error + real list list"

text \<open>
  The parsed class mapping is a \<open>Record<string, string>\<close>; \<open>None\<close> is the JSON value
  \<open>null\<close>. The answers of the outside world during one call:
  \<^item> \<open>webgl\<close>: the \<open>try\<close> block of \<open>initializeBackend\<close> (\<open>tf.setBackend('webgl')\<close>, then \<open>tf.ready()\<close>);
  \<^item> \<open>tf_ready\<close>: \<open>tf.ready()\<close> in its \<open>catch\<close> block;
  \<^item> \<open>fetch_class_mapping\<close>: \<open>fetch('/model_tfjs/class_mapping.json')\<close>;
  \<^item> \<open>loadLayersModel\<close>: \<open>tf.loadLayersModel('/model_tfjs/model.json', ...)\<close> raced against the
    two-minute timer; \<open>None\<close> when the timer fires first;
  \<^item> \<open>resizeNearestNeighbor\<close>: the library's resize to 224 x 224 on the integer pixel tensor;
  \<^item> \<open>toDataURL\<close>: the JPEG data URL of the canvas.
\<close>

record world =
  webgl :: "unit settled"
  tf_ready :: "unit settled"
  fetch_class_mapping :: "(string \<rightharpoonup> string) option response settled"
  loadLayersModel :: "LayersModel option settled option"
  resizeNearestNeighbor :: "int list \<Rightarrow> int list"
  toDataURL :: string

subsection \<open>Module state\<close>

text \<open>
  The three module-level variables (\<open>let model\<close>, \<open>let classMapping\<close>,
  \<open>let backendInitialized\<close>), and \<open>fetched\<close>: the URLs requested so far, oldest first. The
  last is not a variable of the module; it records the network effect of \<open>fetch\<close> and
  \<open>tf.loadLayersModel\<close>, so that loading work can be counted.
\<close>

record state =
  model :: "LayersModel option"
  classMapping :: "(string \<rightharpoonup> string) option"
  backendInitialized :: bool
  fetched :: "string list"

definition initial :: state where
  "initial = \<lparr>model = None, classMapping = None, backendInitialized = False, fetched = []\<rparr>"

subsection \<open>\<open>initializeBackend\<close> and \<open>loadModel\<close>\<close>

definition initializeBackend :: "world \<Rightarrow> state \<Rightarrow> (js_error + unit) \<times> state" where
  "initializeBackend w s =
     (if backendInitialized s then (Inr (), s)
      else case webgl w of
        Resolves _ \<Rightarrow> (Inr (), s\<lparr>backendInitialized := True\<rparr>)
      | Rejects _ \<Rightarrow>
          (case tf_ready w of
             Resolves _ \<Rightarrow> (Inr (), s\<lparr>backendInitialized := True\<rparr>)
           | Rejects e \<Rightarrow> (Inl e, s)))"

text \<open>
  The \<open>try\<close> block of \<open>loadModel\<close>, statement by statement. \<open>Object.keys(classMapping)\<close>
  throws a \<open>TypeError\<close> when the parsed mapping is \<open>null\<close>.
\<close>

definition loadModel_try :: "world \<Rightarrow> state \<Rightarrow> (js_error + unit) \<times> state" where
  "loadModel_try w s =
     (case initializeBackend w s of
        (Inl e, s1) \<Rightarrow> (Inl e, s1)
      | (Inr _, s1) \<Rightarrow>
          (let s2 = s1\<lparr>fetched := fetched s1 @ [''/model_tfjs/class_mapping.json'']\<rparr> in
           case fetch_class_mapping w of
             Rejects e \<Rightarrow> (Inl e, s2)
           | Resolves response \<Rightarrow>
               if \<not> ok response
               then (Inl (Error (''Class mapping not found: '' @ String_of (status response))), s2)
               else (case json response of
                  Rejects e \<Rightarrow> (Inl e, s2)
                | Resolves cm \<Rightarrow>
                    (let s3 = s2\<lparr>classMapping := cm\<rparr> in
                     case cm of
                       None \<Rightarrow> (Inl (TypeError ''Cannot convert undefined or null to object''), s3)
                     | Some _ \<Rightarrow>
                         (let s4 = s3\<lparr>fetched := fetched s3 @ [''/model_tfjs/model.json'']\<rparr> in
                          case loadLayersModel w of
                            None \<Rightarrow>
                              (Inl (Error ''Model loading timeout after 2 minutes. The model may be corrupted or too large.''), s4)
                          | Some (Rejects e) \<Rightarrow> (Inl e, s4)
                          | Some (Resolves m) \<Rightarrow>
                              (let s5 = s4\<lparr>model := m\<rparr> in
                               case m of
                                 None \<Rightarrow> (Inl (Error ''Model loaded but is null''), s5)
                               | Some _ \<Rightarrow> (Inr (), s5)))))))"

text \<open>
  \<open>loadModel\<close>: nothing to do when \<open>model\<close> is set; otherwise the \<open>try\<close> block, and on any
  error the \<open>catch\<close> block assigns \<open>null\<close> to both references and rethrows.
\<close>

definition loadModel :: "world \<Rightarrow> state \<Rightarrow> (js_error + LayersModel option) \<times> state" where
  "loadModel w s =
     (if model s = None
      then (case loadModel_try w s of
              (Inl error, s') \<Rightarrow> (Inl error, s'\<lparr>model := None, classMapping := None\<rparr>)
            | (Inr _, s') \<Rightarrow> (Inr (model s'), s'))
      else (Inr (model s), s))"

subsection \<open>Preprocessing and \<open>predictImage\<close>\<close>

text \<open>
  The decoded image is its channel bytes. \<open>tf.browser.fromPixels\<close> makes the integer tensor
  of them, and \<open>toFloat().div(255.0)\<close> divides every entry by 255.
\<close>

definition fromPixels :: "8 word list \<Rightarrow> int list" where
  "fromPixels pixels = map uint pixels"

definition preprocess :: "(int list \<Rightarrow> int list) \<Rightarrow> 8 word list \<Rightarrow> real list" where
  "preprocess resize pixels = map (\<lambda>v. real_of_int v / 255) (resize (fromPixels pixels))"

text \<open>
  \<open>predictImage\<close>. After \<open>if (!model) await loadModel()\<close> the code calls
  \<open>model.predict\<close>, takes row \<open>0\<close> of the result (\<open>undefined\<close> for an empty batch, on which
  \<open>.map\<close> throws), and ranks it against \<open>classMapping!\<close>.
\<close>

definition predictImage :: "world \<Rightarrow> 8 word list \<Rightarrow> state \<Rightarrow> (js_error + PredictionResult) \<times> state" where
  "predictImage w imageElement s =
     (case (if model s = None then loadModel w s else (Inr (model s), s)) of
        (Inl e, s1) \<Rightarrow> (Inl e, s1)
      | (Inr _, s1) \<Rightarrow>
          (let tensor = preprocess (resizeNearestNeighbor w) imageElement in
           case model s1 of
             None \<Rightarrow> (Inl (TypeError ''Cannot read properties of null''), s1)
           | Some m \<Rightarrow>
               (case m tensor of
                  Inl e \<Rightarrow> (Inl e, s1)
                | Inr probs \<Rightarrow>
                    (case probs of
                       [] \<Rightarrow> (Inl (TypeError ''Cannot read properties of undefined''), s1)
                     | probabilities # _ \<Rightarrow>
                         (case classMapping s1 of
                            None \<Rightarrow> (Inl (TypeError ''Cannot read properties of null''), s1)
                          | Some cm \<Rightarrow> (rank cm probabilities (toDataURL w), s1))))))"

subsection \<open>Calls that overlap\<close>

text \<open>
  Where a call of \<open>loadModel\<close> stands between two segments: not yet run (\<open>LStart\<close>); inside
  \<open>initializeBackend\<close>, waiting for the backend (\<open>LBackend\<close>); waiting for the promise of
  \<open>initializeBackend\<close> (\<open>LBackendDone\<close>); waiting for the \<open>fetch\<close> of the class mapping
  (\<open>LFetch\<close>); waiting for \<open>response.json()\<close>, with what it will give (\<open>LJson\<close>); waiting for
  the timer of zero milliseconds (\<open>LTimer\<close>); waiting for the race of the model load and
  the two-minute timer (\<open>LRace\<close>); waiting for the animation frames and the timer before the
  last check (\<open>LFrames\<close>); returned or thrown (\<open>LDone\<close>).
\<close>

datatype load_pc =
    LStart
  | LBackend
  | LBackendDone
  | LFetch
  | LJson "(string \<rightharpoonup> string) option settled"
  | LTimer
  | LRace
  | LFrames
  | LDone "js_error + LayersModel option"

text \<open>The \<open>catch\<close> block of \<open>loadModel\<close>: both references are set to null, the error is rethrown.\<close>

definition caught :: "js_error \<Rightarrow> state \<Rightarrow> load_pc \<times> state" where
  "caught e s = (LDone (Inl e), s\<lparr>model := None, classMapping := None\<rparr>)"

text \<open>
  One segment of \<open>loadModel\<close>: the code from one \<open>await\<close> to the next, which runs without
  interruption. The guard \<open>if (!model)\<close> and the first lines of \<open>initializeBackend\<close> are in
  the first segment; the check \<open>if (!model) throw\<close> and \<open>return model\<close> in the last, and both
  read the variable as it is then. Awaits between which the module state is neither read
  nor written are taken together.
\<close>

definition load_step :: "world \<Rightarrow> load_pc \<Rightarrow> state \<Rightarrow> load_pc \<times> state" where
  "load_step w p s =
     (case p of
        LStart \<Rightarrow>
          if model s \<noteq> None then (LDone (Inr (model s)), s)
          else if backendInitialized s then (LBackendDone, s)
          else (LBackend, s)
      | LBackend \<Rightarrow>
          (case webgl w of
             Resolves _ \<Rightarrow> (LBackendDone, s\<lparr>backendInitialized := True\<rparr>)
           | Rejects _ \<Rightarrow>
               (case tf_ready w of
                  Resolves _ \<Rightarrow> (LBackendDone, s\<lparr>backendInitialized := True\<rparr>)
                | Rejects e \<Rightarrow> caught e s))
      | LBackendDone \<Rightarrow>
          (LFetch, s\<lparr>fetched := fetched s @ [''/model_tfjs/class_mapping.json'']\<rparr>)
      | LFetch \<Rightarrow>
          (case fetch_class_mapping w of
             Rejects e \<Rightarrow> caught e s
           | Resolves response \<Rightarrow>
               if \<not> ok response
               then caught (Error (''Class mapping not found: '' @ String_of (status response))) s
               else (LJson (json response), s))
      | LJson j \<Rightarrow>
          (case j of
             Rejects e \<Rightarrow> caught e s
           | Resolves cm \<Rightarrow>
               (case cm of
                  None \<Rightarrow>
                    caught (TypeError ''Cannot convert undefined or null to object'')
                      (s\<lparr>classMapping := cm\<rparr>)
                | Some _ \<Rightarrow> (LTimer, s\<lparr>classMapping := cm\<rparr>)))
      | LTimer \<Rightarrow> (LRace, s\<lparr>fetched := fetched s @ [''/model_tfjs/model.json'']\<rparr>)
      | LRace \<Rightarrow>
          (case loadLayersModel w of
             None \<Rightarrow>
               caught (Error ''Model loading timeout after 2 minutes. The model may be corrupted or too large.'') s
           | Some (Rejects e) \<Rightarrow> caught e s
           | Some (Resolves m) \<Rightarrow> (LFrames, s\<lparr>model := m\<rparr>))
      | LFrames \<Rightarrow>
          if model s = None then caught (Error ''Model loaded but is null'') s
          else (LDone (Inr (model s)), s)
      | LDone r \<Rightarrow> (LDone r, s))"

text \<open>
  A call in progress, with the answers the browser gives to it. A call of \<open>predictImage\<close>
  assigns neither \<open>model\<close> nor \<open>classMapping\<close> itself; it changes the module state only
  through the call of \<open>loadModel\<close> behind its guard \<open>if (!model)\<close>, which is read in the same
  segment as the guard of \<open>loadModel\<close>. So for the module state every call is such a task.
\<close>

record task =
  pc :: load_pc
  answers :: world

text \<open>
  The event loop runs one segment of one call at a time. A schedule names, step by step,
  the call whose next segment runs; a call that has not run yet has not started.
\<close>

definition sched_step :: "nat \<Rightarrow> state \<times> task list \<Rightarrow> state \<times> task list" where
  "sched_step i c =
     (case c of (s, ts) \<Rightarrow>
        if i < length ts
        then (case load_step (answers (ts ! i)) (pc (ts ! i)) s of
                (p, s') \<Rightarrow> (s', ts[i := (ts ! i)\<lparr>pc := p\<rparr>]))
        else (s, ts))"

definition exec :: "nat list \<Rightarrow> state \<times> task list \<Rightarrow> state \<times> task list" where
  "exec schedule c = fold sched_step schedule c"


text \<open>A call with no other call in between: its segments one after the other.\<close>

definition alone :: "world \<Rightarrow> state \<Rightarrow> load_pc \<times> state" where
  "alone w s =
     (let (p1, s1) = load_step w LStart s;
          (p2, s2) = load_step w p1 s1;
          (p3, s3) = load_step w p2 s2;
          (p4, s4) = load_step w p3 s3;
          (p5, s5) = load_step w p4 s4;
          (p6, s6) = load_step w p5 s5;
          (p7, s7) = load_step w p6 s6
      in load_step w p7 s7)"

subsection \<open>The API client\<close>

text \<open>
  The parsed body of the server's answer, seen through the two reads the client makes: its
  \<open>error\<close> property (absent is \<open>None\<close>) and the object spread into the result. A body that
  parses to \<open>null\<close> is \<open>None\<close>. An \<open>error\<close> property that is not a string is outside the
  model.
\<close>

record server_object =
  error :: "string option"
  prediction :: PredictionResult

record api_world =
  VITE_API_URL :: "string option"
  image_onload :: bool
  canvas_toDataURL :: string
  fetch_predict :: "server_object option response settled"

text \<open>\<^verbatim>\<open>import.meta.env.VITE_API_URL || 'https://treesense.onrender.com'\<close>\<close>

definition API_URL :: "api_world \<Rightarrow> string" where
  "API_URL w =
     (case VITE_API_URL w of
        Some u \<Rightarrow> if u \<noteq> [] then u else ''https://treesense.onrender.com''
      | None \<Rightarrow> ''https://treesense.onrender.com'')"

text \<open>\<open>s.includes(pat)\<close>: \<open>pat\<close> occurs in \<open>s\<close> as a contiguous substring.\<close>

fun js_includes :: "string \<Rightarrow> string \<Rightarrow> bool" where
  "js_includes [] pat = (pat = [])"
| "js_includes (c # cs) pat = (take (length pat) (c # cs) = pat \<or> js_includes cs pat)"

text \<open>
  \<^verbatim>\<open>errorData = await response.json().catch(() => ({ error: 'Unknown error' }))\<close>, then the
  read \<open>errorData.error\<close>, which throws on \<open>null\<close>.
\<close>

definition errorData_error :: "server_object option settled \<Rightarrow> js_error + string option" where
  "errorData_error j =
     (case j of
        Rejects _ \<Rightarrow> Inr (Some ''Unknown error'')
      | Resolves None \<Rightarrow> Inl (TypeError ''Cannot read properties of null'')
      | Resolves (Some errorData) \<Rightarrow> Inr (error errorData))"

text \<open>The \<open>try\<close> block of the client's \<open>predictImage\<close>, from the \<open>fetch\<close> on.\<close>

definition api_try :: "api_world \<Rightarrow> js_error + PredictionResult" where
  "api_try w =
     (case fetch_predict w of
        Rejects e \<Rightarrow> Inl e
      | Resolves response \<Rightarrow>
          if \<not> ok response
          then (case errorData_error (json response) of
                  Inl e \<Rightarrow> Inl e
                | Inr (Some m) \<Rightarrow>
                    if m \<noteq> [] then Inl (Error m)
                    else Inl (Error (''Server error: '' @ String_of (status response)))
                | Inr None \<Rightarrow> Inl (Error (''Server error: '' @ String_of (status response))))
          else (case json response of
                  Rejects e \<Rightarrow> Inl e
                | Resolves None \<Rightarrow> Inl (TypeError ''Cannot read properties of null'')
                | Resolves (Some result) \<Rightarrow>
                    Inr ((prediction result)\<lparr>preprocessedImageUrl := Some (canvas_toDataURL w)\<rparr>)))"

text \<open>The \<open>catch\<close> block: the error that is thrown in place of the caught one.\<close>

definition api_catch :: "js_error \<Rightarrow> js_error" where
  "api_catch e =
     (if js_includes (message e) ''Failed to fetch'' \<or> name e = ''TypeError''
      then Error ''Request blocked by browser/ad blocker. Try disabling ad blockers for 127.0.0.1:5000''
      else Error (''API prediction failed: '' @ message e))"

text \<open>
  The client's \<open>predictImage\<close>. It first awaits \<open>img.onload\<close>; the image has no \<open>onerror\<close>
  handler, so the call stays pending when the file does not load. The second component is
  the list of requests the call has sent.
\<close>

datatype 'a outcome = Pending | Throws js_error | Returns 'a

definition api_predictImage :: "api_world \<Rightarrow> PredictionResult outcome \<times> string list" where
  "api_predictImage w =
     (if \<not> image_onload w then (Pending, [])
      else (case api_try w of
              Inl e \<Rightarrow> (Throws (api_catch e), [API_URL w @ ''/predict''])
            | Inr result \<Rightarrow> (Returns result, [API_URL w @ ''/predict''])))"

subsection \<open>Auxiliary notions\<close>

text \<open>
  The order of the sorted list, as indices into \<open>probabilities\<close>: the sort of the source
  with its comparator, run on the pairs (index, probability).
\<close>

definition ranking :: "real list \<Rightarrow> nat list" where
  "ranking probabilities =
     map fst (js_sort (\<lambda>a b. snd b - snd a) (enumerate 0 probabilities))"

text \<open>The object that \<open>allPredictions\<close> builds from one index and one probability.\<close>

definition pair_of :: "(string \<rightharpoonup> string) \<Rightarrow> nat \<times> real \<Rightarrow> class_prob" where
  "pair_of cm = (\<lambda>(index, prob). \<lparr>className = cm (String_of index), confidence = prob\<rparr>)"

text \<open>
  Strictly greater probability first; for equal probabilities, the smaller index first.
\<close>

definition before :: "nat \<times> real \<Rightarrow> nat \<times> real \<Rightarrow> bool" where
  "before a b = (snd b < snd a \<or> (snd b = snd a \<and> fst a < fst b))"

text \<open>The same order on label indices, for a given probability vector.\<close>

definition precedes :: "real list \<Rightarrow> nat \<Rightarrow> nat \<Rightarrow> bool" where
  "precedes probabilities i j =
     (probabilities ! j < probabilities ! i \<or> (probabilities ! j = probabilities ! i \<and> i < j))"

text \<open>
  The scenario of three labels: the class mapping \<open>{"0": "A", "1": "B", "2": "C"}\<close>, a
  classifier whose forward pass returns \<open>[[0.1, 0.7, 0.2]]\<close>, and a browser in which every
  request succeeds.
\<close>

definition labels_ABC :: "string \<rightharpoonup> string" where
  "labels_ABC = [''0'' \<mapsto> ''A'', ''1'' \<mapsto> ''B'', ''2'' \<mapsto> ''C'']"

definition model_ABC :: LayersModel where
  "model_ABC tensor = Inr [[0.1, 0.7, 0.2]]"

definition world_ABC :: world where
  "world_ABC =
     \<lparr>webgl = Resolves (), tf_ready = Resolves (),
      fetch_class_mapping = Resolves \<lparr>ok = True, status = 200, json = Resolves (Some labels_ABC)\<rparr>,
      loadLayersModel = Some (Resolves (Some model_ABC)),
      resizeNearestNeighbor = (\<lambda>xs. xs),
      toDataURL = ''data:image/jpeg;base64''\<rparr>"

text \<open>
  The result and the module state that the scenario is expected to produce, a loaded module
  with two labels, and a loaded module whose classifier has no classes at all.
\<close>

definition result_ABC :: PredictionResult where
  "result_ABC =
     \<lparr>className = Some ''B'', confidence = 0.7,
      top3 = [\<lparr>className = Some ''B'', confidence = 0.7\<rparr>,
              \<lparr>className = Some ''C'', confidence = 0.2\<rparr>,
              \<lparr>className = Some ''A'', confidence = 0.1\<rparr>],
      allProbabilities =
             [\<lparr>className = Some ''A'', confidence = 0.1\<rparr>,
              \<lparr>className = Some ''B'', confidence = 0.7\<rparr>,
              \<lparr>className = Some ''C'', confidence = 0.2\<rparr>],
      preprocessedImageUrl = Some ''data:image/jpeg;base64''\<rparr>"

definition loaded_ABC :: state where
  "loaded_ABC =
     \<lparr>model = Some model_ABC, classMapping = Some labels_ABC, backendInitialized = True,
      fetched = [''/model_tfjs/class_mapping.json'', ''/model_tfjs/model.json'']\<rparr>"













text \<open>
  For the API client: a server that answers \<open>500\<close> with the body
  \<open>{"error": "Model not loaded"}\<close>, which carries no prediction.
\<close>

definition no_prediction :: PredictionResult where
  "no_prediction =
     \<lparr>className = None, confidence = 0, top3 = [], allProbabilities = [],
      preprocessedImageUrl = None\<rparr>"

definition response_500 :: "server_object option response" where
  "response_500 =
     \<lparr>ok = False, status = 500,
      json = Resolves (Some \<lparr>error = Some ''Model not loaded'', prediction = no_prediction\<rparr>)\<rparr>"

definition api_world_500 :: api_world where
  "api_world_500 =
     \<lparr>VITE_API_URL = None, image_onload = True,
      canvas_toDataURL = ''data:image/jpeg;base64'',
      fetch_predict = Resolves response_500\<rparr>"

section \<open>Properties of the sort\<close>

lemma mset_js_insert: "mset (js_insert cmp x ys) = add_mset x (mset ys)"
  by (induction ys) auto

lemma mset_js_sort: "mset (js_sort cmp xs) = mset xs"
  by (induction xs) (auto simp: js_sort_def mset_js_insert)

lemma set_js_sort: "set (js_sort cmp xs) = set xs"
  using mset_js_sort [of cmp xs] by (metis set_mset_mset)

lemma length_js_sort: "length (js_sort cmp xs) = length xs"
  using mset_js_sort [of cmp xs] by (metis size_mset)

lemma js_sort_Cons: "js_sort cmp (x # xs) = js_insert cmp x (js_sort cmp xs)"
  by (simp add: js_sort_def)

lemma js_sort_Nil: "js_sort cmp [] = []"
  by (simp add: js_sort_def)

lemma set_js_insert: "set (js_insert cmp x ys) = insert x (set ys)"
  by (induction ys) auto

lemma descending_js_insert:
  "sorted_wrt (\<lambda>a b. confidence b \<le> confidence a) ys \<Longrightarrow>
   sorted_wrt (\<lambda>a b. confidence b \<le> confidence a) (js_insert by_confidence x ys)"
proof (induction ys)
  case Nil
  then show ?case by simp
next
  case (Cons y ys)
  then show ?case
    by (auto simp: by_confidence_def set_js_insert)
qed

lemma descending_js_sort:
  "sorted_wrt (\<lambda>a b. confidence b \<le> confidence a) (js_sort by_confidence xs)"
  by (induction xs) (simp_all add: js_sort_Nil js_sort_Cons descending_js_insert)

lemma stable_js_insert_neq:
  "confidence x \<noteq> c \<Longrightarrow>
   filter (\<lambda>p. confidence p = c) (js_insert by_confidence x ys) = filter (\<lambda>p. confidence p = c) ys"
  by (induction ys) auto

lemma stable_js_insert_eq:
  "sorted_wrt (\<lambda>a b. confidence b \<le> confidence a) ys \<Longrightarrow> confidence x = c \<Longrightarrow>
   filter (\<lambda>p. confidence p = c) (js_insert by_confidence x ys) = x # filter (\<lambda>p. confidence p = c) ys"
proof (induction ys)
  case Nil
  then show ?case by simp
next
  case (Cons y ys)
  then show ?case
    by (auto simp: by_confidence_def)
qed

lemma stable_js_sort:
  "filter (\<lambda>p. confidence p = c) (js_sort by_confidence xs) = filter (\<lambda>p. confidence p = c) xs"
proof (induction xs)
  case Nil
  then show ?case by (simp add: js_sort_Nil)
next
  case (Cons x xs)
  then show ?case
    by (cases "confidence x = c")
       (simp_all add: js_sort_Cons stable_js_insert_neq stable_js_insert_eq descending_js_sort)
qed


lemma js_insert_map:
  assumes "\<And>a b. cmp (f a) (f b) = cmp' a b"
  shows "js_insert cmp (f x) (map f ys) = map f (js_insert cmp' x ys)"
  by (induction ys) (simp_all add: assms)

lemma js_sort_map:
  assumes "\<And>a b. cmp (f a) (f b) = cmp' a b"
  shows "js_sort cmp (map f xs) = map f (js_sort cmp' xs)"
proof (induction xs)
  case Nil
  show ?case by (simp add: js_sort_Nil)
next
  case (Cons x xs)
  have "js_sort cmp (map f (x # xs)) = js_insert cmp (f x) (map f (js_sort cmp' xs))"
    by (simp add: js_sort_Cons Cons.IH)
  also have "\<dots> = map f (js_insert cmp' x (js_sort cmp' xs))"
    by (rule js_insert_map) (rule assms)
  finally show ?case by (simp add: js_sort_Cons)
qed

section \<open>The sorted list by indices\<close>

lemma sorted_predictions_tagged:
  "sorted_predictions cm probabilities =
     map (pair_of cm) (js_sort (\<lambda>a b. snd b - snd a) (enumerate 0 probabilities))"
  unfolding sorted_predictions_def allPredictions_def pair_of_def [symmetric]
  by (rule js_sort_map) (auto simp: by_confidence_def pair_of_def)

lemma in_enumerate_nth:
  "(i, p) \<in> set (enumerate 0 xs) \<Longrightarrow> i < length xs \<and> p = xs ! i"
  by (auto simp: in_set_enumerate_eq)

lemma sorted_predictions_ranking:
  "sorted_predictions cm probabilities =
     map (\<lambda>i. \<lparr>className = cm (String_of i), confidence = probabilities ! i\<rparr>) (ranking probabilities)"
proof -
  have "pair_of cm x = \<lparr>className = cm (String_of (fst x)), confidence = probabilities ! fst x\<rparr>"
    if "x \<in> set (enumerate 0 probabilities)" for x
    using that in_enumerate_nth [of "fst x" "snd x" probabilities]
    by (simp add: pair_of_def split_beta)
  then show ?thesis
    by (simp add: sorted_predictions_tagged ranking_def set_js_sort)
qed

lemma mset_ranking: "mset (ranking probabilities) = mset [0..<length probabilities]"
proof -
  have "mset (ranking probabilities) = mset (map fst (enumerate 0 probabilities))"
    unfolding ranking_def by (simp only: mset_map mset_js_sort)
  also have "map fst (enumerate 0 probabilities) = [0..<length probabilities]"
    by simp
  finally show ?thesis .
qed

lemma before_js_insert:
  assumes "sorted_wrt before ys" and "\<forall>y \<in> set ys. fst x < fst y"
  shows "sorted_wrt before (js_insert (\<lambda>a b. snd b - snd a) x ys)"
  using assms
proof (induction ys)
  case Nil
  then show ?case by simp
next
  case (Cons y ys)
  show ?case
  proof (cases "snd y - snd x \<le> 0")
    case True
    have "before x z" if "z \<in> set (y # ys)" for z
    proof -
      have "snd z \<le> snd y"
        using that Cons.prems(1) by (auto simp: before_def)
      with True have "snd z \<le> snd x" by simp
      moreover have "fst x < fst z" using that Cons.prems(2) by auto
      ultimately show ?thesis by (auto simp: before_def)
    qed
    with True Cons.prems(1) show ?thesis by simp
  next
    case False
    then have "before y x" by (simp add: before_def)
    moreover have "sorted_wrt before (js_insert (\<lambda>a b. snd b - snd a) x ys)"
      using Cons by simp
    ultimately show ?thesis
      using False Cons.prems(1) by (auto simp: set_js_insert)
  qed
qed

lemma before_js_sort:
  "sorted_wrt (<) (map fst xs) \<Longrightarrow> sorted_wrt before (js_sort (\<lambda>a b. snd b - snd a) xs)"
proof (induction xs)
  case Nil
  show ?case by (simp add: js_sort_Nil)
next
  case (Cons x xs)
  then show ?case
    by (auto simp: js_sort_Cons set_js_sort intro!: before_js_insert)
qed

lemma ranking_before:
  assumes "a < b" and "b < length probabilities"
  shows "probabilities ! (ranking probabilities ! b) < probabilities ! (ranking probabilities ! a) \<or>
         (probabilities ! (ranking probabilities ! b) = probabilities ! (ranking probabilities ! a) \<and>
          ranking probabilities ! a < ranking probabilities ! b)"
proof -
  define ys where "ys = js_sort (\<lambda>a b. snd b - snd a) (enumerate 0 probabilities)"
  have len: "length ys = length probabilities"
    by (simp add: ys_def length_js_sort)
  have "sorted_wrt (<) (map fst (enumerate 0 probabilities))"
    by (simp add: sorted_wrt_upt)
  then have "sorted_wrt before ys"
    unfolding ys_def by (rule before_js_sort)
  with assms len have ab: "before (ys ! a) (ys ! b)"
    by (simp add: sorted_wrt_iff_nth_less)
  have elem: "snd (ys ! k) = probabilities ! fst (ys ! k)" if "k < length probabilities" for k
  proof -
    have "ys ! k \<in> set (enumerate 0 probabilities)"
      using that len set_js_sort [of "\<lambda>a b. snd b - snd a" "enumerate 0 probabilities"]
      unfolding ys_def [symmetric] by (metis nth_mem)
    then show ?thesis
      using in_enumerate_nth [of "fst (ys ! k)" "snd (ys ! k)" probabilities] by simp
  qed
  have rk: "ranking probabilities ! k = fst (ys ! k)" if "k < length probabilities" for k
    using that len by (simp add: ranking_def ys_def [symmetric])
  from assms have "a < length probabilities" by simp
  with ab assms elem rk show ?thesis
    by (simp add: before_def)
qed

lemma sorted_wrt_mset_unique:
  assumes "\<And>x y. R x y \<Longrightarrow> \<not> R y x"
    and "sorted_wrt R xs" and "sorted_wrt R ys" and "mset xs = mset ys"
  shows "xs = ys"
  using assms(2-4)
proof (induction xs arbitrary: ys)
  case Nil
  then show ?case by simp
next
  case (Cons x xs)
  from Cons.prems(3) obtain y ys' where ys: "ys = y # ys'"
    by (cases ys) auto
  have "x = y"
  proof (rule ccontr)
    assume neq: "x \<noteq> y"
    have "x \<in> set ys" "y \<in> set (x # xs)"
      using Cons.prems(3) ys by (metis list.set_intros(1) set_mset_mset)+
    with neq ys have "x \<in> set ys'" "y \<in> set xs" by auto
    with Cons.prems(1,2) ys have "R y x" "R x y" by auto
    with assms(1) show False by blast
  qed
  with Cons ys show ?case by auto
qed

lemma sorted_wrt_ranking: "sorted_wrt (precedes probabilities) (ranking probabilities)"
proof -
  have len: "length (ranking probabilities) = length probabilities"
    using mset_ranking [of probabilities] by (metis length_upt minus_nat.diff_0 size_mset)
  show ?thesis
    unfolding sorted_wrt_iff_nth_less len precedes_def
    using ranking_before [of _ _ probabilities] by blast
qed

lemma ranking_unique:
  assumes "mset idx = mset [0..<length probabilities]"
    and "sorted_wrt (precedes probabilities) idx"
  shows "idx = ranking probabilities"
proof (rule sorted_wrt_mset_unique [OF _ assms(2) sorted_wrt_ranking])
  show "mset idx = mset (ranking probabilities)"
    by (simp only: assms(1) mset_ranking)
qed (auto simp: precedes_def)


section \<open>The scenario, evaluated\<close>

lemma allPredictions_ABC:
  "allPredictions labels_ABC [0.1, 0.7, 0.2] =
     [\<lparr>className = Some ''A'', confidence = 0.1\<rparr>,
      \<lparr>className = Some ''B'', confidence = 0.7\<rparr>,
      \<lparr>className = Some ''C'', confidence = 0.2\<rparr>]"
  by (simp add: allPredictions_def enumerate_eq_zip labels_ABC_def String_of.simps digit_def)

lemma sorted_predictions_ABC:
  "sorted_predictions labels_ABC [0.1, 0.7, 0.2] =
     [\<lparr>className = Some ''B'', confidence = 0.7\<rparr>,
      \<lparr>className = Some ''C'', confidence = 0.2\<rparr>,
      \<lparr>className = Some ''A'', confidence = 0.1\<rparr>]"
  unfolding sorted_predictions_def allPredictions_ABC
  by (simp add: js_sort_def by_confidence_def)

lemma rank_ABC:
  "rank labels_ABC [0.1, 0.7, 0.2] url =
     Inr \<lparr>className = Some ''B'', confidence = 0.7,
          top3 = [\<lparr>className = Some ''B'', confidence = 0.7\<rparr>,
                  \<lparr>className = Some ''C'', confidence = 0.2\<rparr>,
                  \<lparr>className = Some ''A'', confidence = 0.1\<rparr>],
          allProbabilities =
                 [\<lparr>className = Some ''A'', confidence = 0.1\<rparr>,
                  \<lparr>className = Some ''B'', confidence = 0.7\<rparr>,
                  \<lparr>className = Some ''C'', confidence = 0.2\<rparr>],
          preprocessedImageUrl = Some url\<rparr>"
  unfolding rank_def sorted_predictions_ABC allPredictions_ABC
  by simp

lemma loadModel_ABC:
  "loadModel world_ABC initial =
     (Inr (Some model_ABC),
      \<lparr>model = Some model_ABC, classMapping = Some labels_ABC, backendInitialized = True,
       fetched = [''/model_tfjs/class_mapping.json'', ''/model_tfjs/model.json'']\<rparr>)"
  by (simp add: loadModel_def loadModel_try_def initializeBackend_def initial_def world_ABC_def)

lemma predictImage_ABC:
  "predictImage world_ABC img initial =
     (Inr \<lparr>className = Some ''B'', confidence = 0.7,
          top3 = [\<lparr>className = Some ''B'', confidence = 0.7\<rparr>,
                  \<lparr>className = Some ''C'', confidence = 0.2\<rparr>,
                  \<lparr>className = Some ''A'', confidence = 0.1\<rparr>],
          allProbabilities =
                 [\<lparr>className = Some ''A'', confidence = 0.1\<rparr>,
                  \<lparr>className = Some ''B'', confidence = 0.7\<rparr>,
                  \<lparr>className = Some ''C'', confidence = 0.2\<rparr>],
          preprocessedImageUrl = Some ''data:image/jpeg;base64''\<rparr>,
      \<lparr>model = Some model_ABC, classMapping = Some labels_ABC, backendInitialized = True,
       fetched = [''/model_tfjs/class_mapping.json'', ''/model_tfjs/model.json'']\<rparr>)"
proof -
  have "model initial = None" by (simp add: initial_def)
  moreover have "toDataURL world_ABC = ''data:image/jpeg;base64''" by (simp add: world_ABC_def)
  ultimately show ?thesis
    unfolding predictImage_def by (simp add: loadModel_ABC model_ABC_def rank_ABC [simplified])
qed

section \<open>The ranking and the returned object\<close>

lemma length_allPredictions: "length (allPredictions cm probabilities) = length probabilities"
  by (simp add: allPredictions_def)

lemma allPredictions_nth:
  "i < length probabilities \<Longrightarrow>
   allPredictions cm probabilities ! i = \<lparr>className = cm (String_of i), confidence = probabilities ! i\<rparr>"
  by (simp add: allPredictions_def nth_enumerate_eq)

lemma allPredictions_upt:
  "allPredictions cm probabilities =
     map (\<lambda>i. \<lparr>className = cm (String_of i), confidence = probabilities ! i\<rparr>) [0..<length probabilities]"
  by (rule nth_equalityI) (simp_all add: length_allPredictions allPredictions_nth)

lemma length_sorted_predictions: "length (sorted_predictions cm probabilities) = length probabilities"
  by (simp add: sorted_predictions_def length_js_sort length_allPredictions)

lemma rank_eq:
  "rank cm probabilities url =
     (if probabilities = [] then Inl (TypeError ''Cannot read properties of undefined'')
      else Inr \<lparr>className = className (hd (sorted_predictions cm probabilities)),
                confidence = confidence (hd (sorted_predictions cm probabilities)),
                top3 = take 3 (sorted_predictions cm probabilities),
                allProbabilities = allPredictions cm probabilities,
                preprocessedImageUrl = Some url\<rparr>)"
proof (cases "sorted_predictions cm probabilities")
  case Nil
  then have "probabilities = []"
    using length_sorted_predictions [of cm probabilities] by simp
  with Nil show ?thesis by (simp add: rank_def)
next
  case (Cons p ps)
  then have "probabilities \<noteq> []"
    using length_sorted_predictions [of cm probabilities] by auto
  with Cons show ?thesis by (simp add: rank_def)
qed

lemma predictImage_Inr:
  assumes "predictImage w imageElement s = (Inr r, s')"
  shows "\<exists>m cm probabilities rest.
           model s' = Some m \<and> classMapping s' = Some cm \<and>
           m (preprocess (resizeNearestNeighbor w) imageElement) = Inr (probabilities # rest) \<and>
           rank cm probabilities (toDataURL w) = Inr r"
  using assms unfolding predictImage_def Let_def
  by (auto split: if_splits prod.splits sum.splits option.splits list.splits)

lemma hd_sorted_predictions:
  assumes "probabilities \<noteq> []"
  shows "hd (sorted_predictions cm probabilities) =
           allPredictions cm probabilities ! (ranking probabilities ! 0)"
    and "ranking probabilities ! 0 < length probabilities"
proof -
  have len: "length (ranking probabilities) = length probabilities"
    using mset_ranking [of probabilities] by (metis length_upt minus_nat.diff_0 size_mset)
  with assms have ne: "ranking probabilities \<noteq> []" by auto
  have "ranking probabilities ! 0 \<in> set (ranking probabilities)"
    using ne by simp
  then have "ranking probabilities ! 0 \<in> set [0..<length probabilities]"
    using mset_ranking [of probabilities] by (metis set_mset_mset)
  then show lt: "ranking probabilities ! 0 < length probabilities" by simp
  have "hd (sorted_predictions cm probabilities) =
          \<lparr>className = cm (String_of (ranking probabilities ! 0)),
           confidence = probabilities ! (ranking probabilities ! 0)\<rparr>"
    using ne by (simp add: sorted_predictions_ranking hd_map hd_conv_nth)
  with lt show "hd (sorted_predictions cm probabilities) =
           allPredictions cm probabilities ! (ranking probabilities ! 0)"
    by (simp add: allPredictions_nth)
qed

lemma ranking_first_is_max:
  assumes "j < length probabilities"
  shows "probabilities ! j \<le> probabilities ! (ranking probabilities ! 0)"
    and "j < ranking probabilities ! 0 \<Longrightarrow> probabilities ! j < probabilities ! (ranking probabilities ! 0)"
proof -
  have "j \<in> set (ranking probabilities)"
    using assms mset_ranking [of probabilities] by (metis atLeast0LessThan lessThan_iff set_mset_mset set_upt)
  then obtain b where b: "b < length (ranking probabilities)" "ranking probabilities ! b = j"
    by (auto simp: in_set_conv_nth)
  have len: "length (ranking probabilities) = length probabilities"
    using mset_ranking [of probabilities] by (metis length_upt minus_nat.diff_0 size_mset)
  show "probabilities ! j \<le> probabilities ! (ranking probabilities ! 0)"
  proof (cases "b = 0")
    case True
    with b show ?thesis by simp
  next
    case False
    then have "0 < b" by simp
    from ranking_before [OF this, of probabilities] b len show ?thesis by auto
  qed
  show "probabilities ! j < probabilities ! (ranking probabilities ! 0)" if "j < ranking probabilities ! 0"
  proof (cases "b = 0")
    case True
    with b that show ?thesis by simp
  next
    case False
    then have "0 < b" by simp
    from ranking_before [OF this, of probabilities] b len that show ?thesis by auto
  qed
qed

lemma predictImage_ABC_result:
  "predictImage world_ABC img initial = (Inr result_ABC, loaded_ABC)"
  by (simp add: predictImage_ABC result_ABC_def loaded_ABC_def)


section \<open>The prediction result\<close>

text \<open>
  Claim C1, as the code has it. For every prediction result, \<open>allProbabilities\<close> holds one
  label/confidence pair per entry of the probability vector, in the order of the label
  indices: entry \<open>i\<close> pairs \<open>classMapping[String(i)]\<close> with \<open>probabilities[i]\<close>. It is the list
  before sorting. \<open>top3\<close> is the first three elements of the list that sorting
  \<open>allProbabilities\<close> by descending confidence gives; that list is a permutation of
  \<open>allProbabilities\<close> and is in descending order of confidence.
\<close>

theorem allProbabilities_by_index_top3_of_sorted:
  assumes "predictImage w imageElement s = (Inr r, s')"
  shows "\<exists>m cm probabilities rest.
           model s' = Some m \<and> classMapping s' = Some cm \<and>
           m (preprocess (resizeNearestNeighbor w) imageElement) = Inr (probabilities # rest) \<and>
           allProbabilities r =
             map (\<lambda>i. \<lparr>className = cm (String_of i), confidence = probabilities ! i\<rparr>)
               [0..<length probabilities] \<and>
           top3 r = take 3 (js_sort by_confidence (allProbabilities r)) \<and>
           mset (js_sort by_confidence (allProbabilities r)) = mset (allProbabilities r) \<and>
           sorted_wrt (\<lambda>a b. confidence b \<le> confidence a) (js_sort by_confidence (allProbabilities r))"
proof -
  from predictImage_Inr [OF assms] obtain m cm probabilities rest where
    m: "model s' = Some m" "classMapping s' = Some cm"
       "m (preprocess (resizeNearestNeighbor w) imageElement) = Inr (probabilities # rest)"
    and r: "rank cm probabilities (toDataURL w) = Inr r"
    by blast
  from r have ne: "probabilities \<noteq> []"
    by (auto simp: rank_eq split: if_splits)
  with r have all: "allProbabilities r = allPredictions cm probabilities"
    and t3: "top3 r = take 3 (sorted_predictions cm probabilities)"
    by (auto simp: rank_eq)
  have "allProbabilities r =
          map (\<lambda>i. \<lparr>className = cm (String_of i), confidence = probabilities ! i\<rparr>)
            [0..<length probabilities]"
    unfolding all by (rule allPredictions_upt)
  moreover have "top3 r = take 3 (js_sort by_confidence (allProbabilities r))"
    by (simp add: t3 all sorted_predictions_def)
  moreover note mset_js_sort [of by_confidence "allProbabilities r"]
    descending_js_sort [of "allProbabilities r"]
  ultimately show ?thesis
    using m by blast
qed

text \<open>
  In the scenario of three labels the premise holds and the conclusion is about the
  returned object; there \<open>allProbabilities\<close> is not in descending order and \<open>top3\<close> is not
  its prefix, so claim C1 as stated (a sorted \<open>allProbabilities\<close> with \<open>top3\<close> as its first
  three elements) fails.
\<close>

theorem allProbabilities_by_index_top3_of_sorted_witness:
  "predictImage world_ABC [] initial = (Inr result_ABC, loaded_ABC) \<and>
   (\<exists>m cm probabilities rest.
      model loaded_ABC = Some m \<and> classMapping loaded_ABC = Some cm \<and>
      m (preprocess (resizeNearestNeighbor world_ABC) []) = Inr (probabilities # rest) \<and>
      allProbabilities result_ABC =
        map (\<lambda>i. \<lparr>className = cm (String_of i), confidence = probabilities ! i\<rparr>)
          [0..<length probabilities] \<and>
      top3 result_ABC = take 3 (js_sort by_confidence (allProbabilities result_ABC)) \<and>
      mset (js_sort by_confidence (allProbabilities result_ABC)) = mset (allProbabilities result_ABC) \<and>
      sorted_wrt (\<lambda>a b. confidence b \<le> confidence a)
        (js_sort by_confidence (allProbabilities result_ABC)))"
proof -
  have h: "predictImage world_ABC [] initial = (Inr result_ABC, loaded_ABC)"
    by (rule predictImage_ABC_result)
  from allProbabilities_by_index_top3_of_sorted [OF h] h show ?thesis
    by (rule conjI [rotated])
qed

theorem allProbabilities_sorted_counterexample:
  "predictImage world_ABC [] initial = (Inr result_ABC, loaded_ABC) \<and>
   \<not> sorted_wrt (\<lambda>a b. confidence b \<le> confidence a) (allProbabilities result_ABC) \<and>
   top3 result_ABC \<noteq> take 3 (allProbabilities result_ABC)"
  by (simp add: predictImage_ABC_result result_ABC_def)

text \<open>
  Claim C2, as the code has it. For every prediction result, the top-level \<open>className\<close> is
  the \<open>className\<close> of the first element of the sorted list. That element is an entry of
  \<open>allProbabilities\<close> of greatest confidence, and the one of least index among those; the
  top-level \<open>confidence\<close> is its confidence.
\<close>

theorem className_of_first_greatest:
  assumes "predictImage w imageElement s = (Inr r, s')"
  shows "className r = className (hd (js_sort by_confidence (allProbabilities r))) \<and>
         (\<exists>i<length (allProbabilities r).
            className r = className (allProbabilities r ! i) \<and>
            confidence r = confidence (allProbabilities r ! i) \<and>
            (\<forall>j<length (allProbabilities r). confidence (allProbabilities r ! j) \<le> confidence r) \<and>
            (\<forall>j<i. confidence (allProbabilities r ! j) < confidence r))"
proof -
  from predictImage_Inr [OF assms] obtain cm probabilities where
    r: "rank cm probabilities (toDataURL w) = Inr r"
    by blast
  from r have ne: "probabilities \<noteq> []"
    by (auto simp: rank_eq split: if_splits)
  define i where "i = ranking probabilities ! 0"
  from r ne have all: "allProbabilities r = allPredictions cm probabilities"
    and cn: "className r = className (hd (sorted_predictions cm probabilities))"
    and cf: "confidence r = confidence (hd (sorted_predictions cm probabilities))"
    by (auto simp: rank_eq)
  have i: "i < length probabilities"
    and hd: "hd (sorted_predictions cm probabilities) = allPredictions cm probabilities ! i"
    using hd_sorted_predictions [OF ne] by (simp_all add: i_def)
  have cfi: "confidence r = probabilities ! i"
    using i by (simp add: cf hd allPredictions_nth)
  have "className r = className (hd (js_sort by_confidence (allProbabilities r)))"
    by (simp add: cn all sorted_predictions_def)
  moreover have "i < length (allProbabilities r)"
    using i by (simp add: all length_allPredictions)
  moreover have "className r = className (allProbabilities r ! i)"
    by (simp add: cn hd all)
  moreover have "confidence r = confidence (allProbabilities r ! i)"
    by (simp add: cf hd all)
  moreover have "\<forall>j<length (allProbabilities r). confidence (allProbabilities r ! j) \<le> confidence r"
    using ranking_first_is_max(1) [of _ probabilities]
    by (simp add: all length_allPredictions allPredictions_nth cfi i_def)
  moreover have "\<forall>j<i. confidence (allProbabilities r ! j) < confidence r"
  proof (intro allI impI)
    fix j assume "j < i"
    with i have j: "j < length probabilities" by simp
    from ranking_first_is_max(2) [OF j] \<open>j < i\<close>
    show "confidence (allProbabilities r ! j) < confidence r"
      using j by (simp add: all allPredictions_nth cfi i_def)
  qed
  ultimately show ?thesis by blast
qed

text \<open>
  In the scenario the top-level \<open>className\<close> is \<open>B\<close> while the first element of
  \<open>allProbabilities\<close> is the pair of \<open>A\<close>: claim C2 as stated fails.
\<close>

theorem className_of_first_greatest_witness:
  "predictImage world_ABC [] initial = (Inr result_ABC, loaded_ABC) \<and>
   className result_ABC = className (hd (js_sort by_confidence (allProbabilities result_ABC))) \<and>
   (\<exists>i<length (allProbabilities result_ABC).
      className result_ABC = className (allProbabilities result_ABC ! i) \<and>
      confidence result_ABC = confidence (allProbabilities result_ABC ! i) \<and>
      (\<forall>j<length (allProbabilities result_ABC).
          confidence (allProbabilities result_ABC ! j) \<le> confidence result_ABC) \<and>
      (\<forall>j<i. confidence (allProbabilities result_ABC ! j) < confidence result_ABC))"
proof -
  have h: "predictImage world_ABC [] initial = (Inr result_ABC, loaded_ABC)"
    by (rule predictImage_ABC_result)
  from className_of_first_greatest [OF h] h show ?thesis
    by (rule conjI [rotated])
qed

theorem className_first_counterexample:
  "predictImage world_ABC [] initial = (Inr result_ABC, loaded_ABC) \<and>
   className result_ABC = Some ''B'' \<and>
   className (allProbabilities result_ABC ! 0) = Some ''A''"
  by (simp add: predictImage_ABC_result result_ABC_def)

text \<open>
  Claim C3. With the class mapping of the three labels \<open>A\<close>, \<open>B\<close>, \<open>C\<close> and a forward pass
  that returns \<open>[0.1, 0.7, 0.2]\<close>, the response of the pipeline, started from the initial
  module state on any image, has \<open>className\<close> \<open>B\<close>, \<open>confidence\<close> \<open>0.7\<close> and \<open>top3\<close> the pairs
  \<open>(B, 0.7)\<close>, \<open>(C, 0.2)\<close>, \<open>(A, 0.1)\<close> in this order.
\<close>

theorem scenario_ABC:
  "predictImage world_ABC imageElement initial = (Inr result_ABC, loaded_ABC) \<and>
   className result_ABC = Some ''B'' \<and>
   confidence result_ABC = 0.7 \<and>
   top3 result_ABC =
     [\<lparr>className = Some ''B'', confidence = 0.7\<rparr>,
      \<lparr>className = Some ''C'', confidence = 0.2\<rparr>,
      \<lparr>className = Some ''A'', confidence = 0.1\<rparr>]"
  by (simp add: predictImage_ABC_result result_ABC_def)

text \<open>
  Claim C4. For every probability vector and class mapping, the sorted list consists of the
  pairs at the indices \<open>ranking probabilities\<close>, which are a permutation of the label
  indices; of two positions \<open>a < b\<close> in it, the pair at \<open>a\<close> has the strictly greater
  probability, or the two probabilities are equal and the pair at \<open>a\<close> has the smaller
  label index. This order is the only one with these properties: every permutation of the
  label indices that is in this order is \<open>ranking probabilities\<close>, so the output is the same
  on every run, whichever stable algorithm the engine uses.
\<close>

theorem ranking_descending_ties_by_index:
  "sorted_predictions cm probabilities =
     map (\<lambda>i. \<lparr>className = cm (String_of i), confidence = probabilities ! i\<rparr>) (ranking probabilities) \<and>
   mset (ranking probabilities) = mset [0..<length probabilities] \<and>
   (\<forall>a b. a < b \<and> b < length probabilities \<longrightarrow>
      probabilities ! (ranking probabilities ! b) < probabilities ! (ranking probabilities ! a) \<or>
      (probabilities ! (ranking probabilities ! b) = probabilities ! (ranking probabilities ! a) \<and>
       ranking probabilities ! a < ranking probabilities ! b)) \<and>
   (\<forall>idx. mset idx = mset [0..<length probabilities] \<and> sorted_wrt (precedes probabilities) idx \<longrightarrow>
      idx = ranking probabilities)"
  using sorted_predictions_ranking [of cm probabilities] mset_ranking [of probabilities]
    ranking_before [of _ _ probabilities] ranking_unique [of _ probabilities]
  by blast

text \<open>A vector with a tie: indices \<open>0\<close> and \<open>2\<close> both have probability \<open>0.5\<close>.\<close>

theorem ranking_descending_ties_by_index_witness:
  "mset [1, 0, 2] = mset [0..<length [0.5, 0.7, 0.5 :: real]] \<and>
   sorted_wrt (precedes [0.5, 0.7, 0.5]) [1, 0, 2] \<and>
   ranking [0.5, 0.7, 0.5] = [1, 0, 2] \<and>
   (1::nat) < 2 \<and> 2 < length [0.5, 0.7, 0.5 :: real] \<and>
   [0.5, 0.7, 0.5 :: real] ! (ranking [0.5, 0.7, 0.5] ! 2) = [0.5, 0.7, 0.5] ! (ranking [0.5, 0.7, 0.5] ! 1) \<and>
   ranking [0.5, 0.7, 0.5] ! 1 < ranking [0.5, 0.7, 0.5] ! 2 \<and>
   sorted_predictions labels_ABC [0.5, 0.7, 0.5] =
     [\<lparr>className = Some ''B'', confidence = 0.7\<rparr>,
      \<lparr>className = Some ''A'', confidence = 0.5\<rparr>,
      \<lparr>className = Some ''C'', confidence = 0.5\<rparr>]"
proof -
  note t = ranking_descending_ties_by_index [of labels_ABC "[0.5, 0.7, 0.5]"]
  have m: "mset [1, 0, 2] = mset [0..<length [0.5, 0.7, 0.5 :: real]]"
    by (simp add: numeral_3_eq_3 numeral_2_eq_2)
  have p: "sorted_wrt (precedes [0.5, 0.7, 0.5]) [1, 0, 2]"
    by (simp add: precedes_def)
  from t have "\<forall>idx. mset idx = mset [0..<length [0.5, 0.7, 0.5 :: real]] \<and>
      sorted_wrt (precedes [0.5, 0.7, 0.5]) idx \<longrightarrow> idx = ranking [0.5, 0.7, 0.5]"
    by (elim conjE)
  with m p have rk: "ranking [0.5, 0.7, 0.5] = [1, 0, 2]"
    by (simp only:)
  from t have "sorted_predictions labels_ABC [0.5, 0.7, 0.5] =
     map (\<lambda>i. \<lparr>className = labels_ABC (String_of i), confidence = [0.5, 0.7, 0.5] ! i\<rparr>)
       (ranking [0.5, 0.7, 0.5])"
    by (rule conjunct1)
  then have "sorted_predictions labels_ABC [0.5, 0.7, 0.5] =
     [\<lparr>className = Some ''B'', confidence = 0.7\<rparr>,
      \<lparr>className = Some ''A'', confidence = 0.5\<rparr>,
      \<lparr>className = Some ''C'', confidence = 0.5\<rparr>]"
    unfolding rk by (simp add: labels_ABC_def String_of.simps digit_def)
  with m p show ?thesis
    unfolding rk by simp
qed




section \<open>The module state across calls\<close>

lemma loadModel_loaded: "model s \<noteq> None \<Longrightarrow> loadModel w s = (Inr (model s), s)"
  by (auto simp: loadModel_def)



lemma loadModel_try_Inr:
  "loadModel_try w s = (Inr u, s') \<Longrightarrow> model s' \<noteq> None \<and> classMapping s' \<noteq> None"
  unfolding loadModel_try_def Let_def
  by (auto split: prod.splits sum.splits settled.splits if_splits option.splits)

lemma loadModel_Inr:
  assumes "loadModel w s = (Inr m, s')"
  shows "m = model s' \<and> model s' \<noteq> None"
proof (cases "model s = None")
  case True
  with assms obtain u where "loadModel_try w s = (Inr u, s')" and "m = model s'"
    by (auto simp: loadModel_def split: prod.splits sum.splits)
  then show ?thesis
    using loadModel_try_Inr by blast
next
  case False
  with assms show ?thesis by (auto simp: loadModel_def)
qed








subsection \<open>One call alone, and calls that overlap\<close>

text \<open>Run with no other call in between, the segments give \<open>loadModel\<close>.\<close>

lemma load_step_Done [simp]: "load_step w (LDone r) s = (LDone r, s)"
  by (simp add: load_step_def)

lemma alone_loadModel: "alone w s = (LDone (fst (loadModel w s)), snd (loadModel w s))"
proof (cases "model s = None")
  case False
  then show ?thesis
    by (auto simp: alone_def load_step_def loadModel_def)
next
  case True
  show ?thesis
  proof (cases "backendInitialized s")
    case b: True
    with True show ?thesis
      unfolding alone_def loadModel_def loadModel_try_def initializeBackend_def Let_def
      by (auto simp: load_step_def caught_def split: settled.splits option.splits)
  next
    case b: False
    with True show ?thesis
      unfolding alone_def loadModel_def loadModel_try_def initializeBackend_def Let_def
      by (auto simp: load_step_def caught_def split: settled.splits option.splits)
  qed
qed





lemma exec_Nil [simp]: "exec [] c = c"
  by (simp add: exec_def)

lemma exec_Cons [simp]: "exec (i # schedule) c = exec schedule (sched_step i c)"
  by (simp add: exec_def)










section \<open>The API client on a response that is not OK\<close>

lemma js_includes_hd: "js_includes s pat \<Longrightarrow> pat \<noteq> [] \<Longrightarrow> hd pat \<in> set s"
proof (induction s)
  case Nil
  then show ?case by simp
next
  case (Cons c cs)
  show ?case
  proof (cases "take (length pat) (c # cs) = pat")
    case True
    with Cons.prems(2) have "hd pat = c"
      by (cases pat) auto
    then show ?thesis by simp
  next
    case False
    with Cons show ?thesis by simp
  qed
qed

lemma digit_set: "d < 10 \<Longrightarrow> digit d \<in> set ''0123456789''"
  unfolding digit_def by (rule nth_mem) simp

lemma String_of_set: "set (String_of n) \<subseteq> set ''0123456789''"
proof (induction n rule: String_of.induct)
  case (1 n)
  show ?case
  proof (cases "n < 10")
    case True
    then show ?thesis
      using digit_set [of n] by (subst String_of.simps) simp
  next
    case False
    have "n mod 10 < 10" by simp
    then have "digit (n mod 10) \<in> set ''0123456789''" by (rule digit_set)
    with False 1 show ?thesis
      by (subst String_of.simps) simp
  qed
qed

lemma Server_error_no_F: "\<not> js_includes (''Server error: '' @ String_of n) ''Failed to fetch''"
proof
  assume "js_includes (''Server error: '' @ String_of n) ''Failed to fetch''"
  then have "hd ''Failed to fetch'' \<in> set (''Server error: '' @ String_of n)"
    by (rule js_includes_hd) simp
  then have "CHR ''F'' \<in> set (String_of n)" by simp
  with String_of_set [of n] show False by auto
qed

lemma Unknown_error_no_F: "\<not> js_includes ''Unknown error'' ''Failed to fetch''"
  by simp

lemma api_catch_Server_error:
  "api_catch (Error (''Server error: '' @ String_of n)) =
     Error (''API prediction failed: Server error: '' @ String_of n)"
  using Server_error_no_F [of n] by (simp add: api_catch_def Error_def)

text \<open>
  Claim C8. When the image has loaded and the server's response is not OK, the client's
  \<open>predictImage\<close> throws and returns no result, and it has sent exactly one request. The
  error carries the server's message behind the prefix \<open>API prediction failed:\<close>, or a
  generic message: \<open>Unknown error\<close> when the body is not JSON, \<open>Server error:\<close> with the
  status when the body has no (or an empty) \<open>error\<close>, and the ad-blocker message when the
  body is \<open>null\<close> or the server's message contains \<open>Failed to fetch\<close>.
\<close>

theorem api_not_ok_throws:
  assumes "image_onload w" and "fetch_predict w = Resolves response" and "\<not> ok response"
  shows "api_predictImage w =
           (Throws (Error
              (case json response of
                 Rejects _ \<Rightarrow> ''API prediction failed: Unknown error''
               | Resolves None \<Rightarrow>
                   ''Request blocked by browser/ad blocker. Try disabling ad blockers for 127.0.0.1:5000''
               | Resolves (Some errorData) \<Rightarrow>
                   (case error errorData of
                      None \<Rightarrow> ''API prediction failed: Server error: '' @ String_of (status response)
                    | Some m \<Rightarrow>
                        if m = [] then ''API prediction failed: Server error: '' @ String_of (status response)
                        else if js_includes m ''Failed to fetch''
                        then ''Request blocked by browser/ad blocker. Try disabling ad blockers for 127.0.0.1:5000''
                        else ''API prediction failed: '' @ m))),
            [API_URL w @ ''/predict''])"
proof (cases "json response")
  case (Rejects e)
  with assms show ?thesis
    by (simp add: api_predictImage_def api_try_def errorData_error_def api_catch_def Error_def)
next
  case (Resolves body)
  show ?thesis
  proof (cases body)
    case None
    with Resolves assms show ?thesis
      by (simp add: api_predictImage_def api_try_def errorData_error_def api_catch_def
          Error_def TypeError_def)
  next
    case (Some errorData)
    show ?thesis
    proof (cases "error errorData")
      case None
      with Some Resolves assms show ?thesis
        by (simp add: api_predictImage_def api_try_def errorData_error_def api_catch_Server_error [simplified])
    next
      case (Some m)
      show ?thesis
      proof (cases "m = []")
        case True
        with Some \<open>body = Some errorData\<close> Resolves assms show ?thesis
          by (simp add: api_predictImage_def api_try_def errorData_error_def api_catch_Server_error [simplified])
      next
        case False
        with Some \<open>body = Some errorData\<close> Resolves assms show ?thesis
          by (simp add: api_predictImage_def api_try_def errorData_error_def api_catch_def Error_def)
      qed
    qed
  qed
qed

theorem api_not_ok_throws_witness:
  "image_onload api_world_500 \<and> fetch_predict api_world_500 = Resolves response_500 \<and>
   \<not> ok response_500 \<and>
   api_predictImage api_world_500 =
     (Throws (Error ''API prediction failed: Model not loaded''),
      [''https://treesense.onrender.com/predict''])"
proof -
  have h: "image_onload api_world_500" "fetch_predict api_world_500 = Resolves response_500"
    "\<not> ok response_500"
    by (simp_all add: api_world_500_def response_500_def)
  from api_not_ok_throws [OF h] h show ?thesis
    by (simp add: response_500_def API_URL_def api_world_500_def)
qed

section \<open>Preprocessing\<close>



end
